theory Spec2Isabelle
  imports Main
begin

section \<open>Data received from the aggregation API\<close>

text \<open>
  The server in \<^verbatim>\<open>server/index.js\<close> forwards and reshapes JSON documents. A field
  that the source guards with \<^verbatim>\<open>||\<close>, \<^verbatim>\<open>??\<close> or \<^verbatim>\<open>?.\<close> is optional here
  (\<open>None\<close> stands for \<^verbatim>\<open>undefined\<close> and \<^verbatim>\<open>null\<close>); a field that the source reads
  without a guard has the type the API documents for it. Numbers are passed through
  unchanged by the code and are integers here. An exception is a value of \<open>error\<close>.
\<close>

datatype error = UpstreamError string | ReferenceError string

datatype jsval = JNull | JBool bool | JNum int | JStr string

type_synonym jsobj = "(string \<times> jsval) list"

record account =
  a_account_id :: string
  a_name :: "string option"
  a_official_name :: "string option"
  a_mask :: "string option"
  a_type :: "string option"
  a_subtype :: "string option"
  a_balances :: "jsobj option"

record transaction =
  t_account_id :: string
  t_date :: string
  t_name :: "string option"
  t_merchant_name :: "string option"
  t_payee :: "string option"
  t_amount :: int
  t_category :: "string list option"

record tx_page =
  transactions :: "transaction list"
  total_transactions :: nat

record sync_page =
  added :: "transaction list"
  modified :: "transaction list"
  removed :: "string list"
  next_cursor :: string
  has_more :: bool

text \<open>The three liability kinds that \<^verbatim>\<open>liabilitiesGet\<close> answers with.\<close>

record credit_liability =
  c_account_id :: string
  c_apr :: "int option option"  \<comment> \<open>\<^verbatim>\<open>c.apr?.apr_percentage\<close>: no \<^verbatim>\<open>apr\<close>, or one with or without a percentage\<close>
  c_minimum_payment_amount :: "int option"
  c_next_payment_due_date :: "string option"

record student_liability =
  s_account_id :: string
  s_interest_rate_percentage :: "int option"
  s_minimum_payment_amount :: "int option"
  s_next_payment_due_date :: "string option"

record mortgage_liability =
  m_account_id :: string
  m_interest_rate :: "int option option"  \<comment> \<open>\<^verbatim>\<open>m.interest_rate?.percentage\<close>\<close>
  m_next_monthly_payment :: "int option"
  m_next_payment_due_date :: "string option"

record liabilities =
  credit :: "credit_liability list option"
  student :: "student_liability list option"
  mortgage :: "mortgage_liability list option"

text \<open>
  The client of the aggregation API. Each call either throws (\<open>Inl\<close>) or answers
  (\<open>Inr\<close>); the first argument is the access token of the request. The two paginated
  calls are made repeatedly inside a loop, with an offset or a cursor that the loop
  computes from the earlier answers: for them the client is the sequence of its answers,
  indexed by the number of the call within the loop.
\<close>

record plaid =
  accountsBalanceGet :: "string \<Rightarrow> error + account list"
  accountsGet :: "string \<Rightarrow> error + account list option"
  liabilitiesGet :: "string \<Rightarrow> error + liabilities option"
  transactionsGet :: "string \<Rightarrow> nat \<Rightarrow> error + tx_page"
  transactionsSync :: "string \<Rightarrow> nat \<Rightarrow> error + sync_page"
  transactionsRefresh :: "string \<Rightarrow> error + unit"
  itemPublicTokenExchange :: "string \<Rightarrow> error + (string \<times> string)"
    \<comment> \<open>the answer is \<^verbatim>\<open>{access_token, item_id}\<close>, in this order\<close>

section \<open>The two tables\<close>

text \<open>
  \<^verbatim>\<open>items(id, item_id UNIQUE, access_token, institution_name, created_at)\<close> and
  \<^verbatim>\<open>cursors(item_id PRIMARY KEY, cursor)\<close>. The columns \<^verbatim>\<open>id\<close> and \<^verbatim>\<open>created_at\<close>
  are filled by the database and read by no handler; they are left out.
\<close>

record item_row =
  item_id :: string
  access_token :: string
  institution_name :: "string option"

record store =
  items :: "item_row list"
  cursors :: "string \<rightharpoonup> string option"

text \<open>\<^verbatim>\<open>INSERT OR IGNORE INTO items\<close>: a row whose \<^verbatim>\<open>item_id\<close> is taken is dropped.\<close>

definition insertItem :: "store \<Rightarrow> item_row \<Rightarrow> store" where
  "insertItem db row =
     (if item_id row \<in> set (map item_id (items db)) then db
      else db\<lparr>items := items db @ [row]\<rparr>)"

text \<open>\<^verbatim>\<open>INSERT INTO cursors ... ON CONFLICT(item_id) DO UPDATE SET cursor=@cursor\<close>\<close>

definition upsertCursor :: "store \<Rightarrow> string \<Rightarrow> string option \<Rightarrow> store" where
  "upsertCursor db i c = db\<lparr>cursors := (cursors db)(i \<mapsto> c)\<rparr>"

text \<open>
  \<^verbatim>\<open>getCursor.get(item_id)?.cursor || null\<close>: no row, a null cursor and an empty cursor
  all give \<^verbatim>\<open>null\<close>.
\<close>

definition getCursor :: "store \<Rightarrow> string \<Rightarrow> string option" where
  "getCursor db i =
     (case cursors db i of
        None \<Rightarrow> None
      | Some c \<Rightarrow> (case c of None \<Rightarrow> None | Some s \<Rightarrow> if s = [] then None else Some s))"

definition getAccessTokens :: "store \<Rightarrow> item_row list" where
  "getAccessTokens db = items db"

definition getOneItem :: "store \<Rightarrow> string \<Rightarrow> item_row option" where
  "getOneItem db i = find (\<lambda>r. item_id r = i) (items db)"

section \<open>Records sent to the dashboard\<close>

record liability =
  apr_percentage :: "int option"
  minimum_payment_amount :: "int option"
  next_payment_due_date :: "string option"

text \<open>
  What \<^verbatim>\<open>liabByAccount[a.account_id] || null\<close> can be (\<open>None\<close> is \<^verbatim>\<open>null\<close>): a
  liability record; a member that every object inherits from \<^verbatim>\<open>Object.prototype\<close>,
  given by its name; or a truthy number or string, the field of a record that has become
  the prototype of \<^verbatim>\<open>liabByAccount\<close>.
\<close>

datatype liability_value =
  LiabilityRecord liability
| InheritedMember string
| NumberValue int
| StringValue string

record account_out =
  ao_institution :: string
  ao_name :: string
  ao_nickname :: string
  ao_mask :: string
  ao_type :: string
  ao_subtype :: string
  ao_balances :: jsobj
  ao_liability :: "liability_value option"

record transaction_out =
  to_date :: string
  to_name :: string
  to_amount :: int
  to_category :: "string list"
  to_institution :: string
  to_nickname :: string

text \<open>The result of \<^verbatim>\<open>fetchItemSnapshot\<close>: \<^verbatim>\<open>{accounts, transactions, error?}\<close>.\<close>

record snapshot =
  snap_accounts :: "account_out list"
  snap_transactions :: "transaction_out list"
  snap_error :: "string option"

text \<open>
  \<^verbatim>\<open>x || d\<close> on a string that may be missing: the empty string is falsy as well.
\<close>

definition or_else :: "string option \<Rightarrow> string \<Rightarrow> string" where
  "or_else x d = (case x of None \<Rightarrow> d | Some s \<Rightarrow> if s = [] then d else s)"

section \<open>Snapshot builder: transaction pagination\<close>

text \<open>
  Lines 119 to 134 of \<^verbatim>\<open>fetchItemSnapshot\<close>:
  \<^verbatim>\<open>
  let tx = [];
  try {
    let total = 0, offset = 0, pageSize = 500;
    do {
      const resp = await plaid.transactionsGet({ ..., options: { count: pageSize, offset } });
      total = resp.data.total_transactions;
      tx.push(...resp.data.transactions);
      offset += resp.data.transactions.length;
    } while (offset < total);
  } catch (e) { console.error(...); }
  \<close>
  The upstream is the sequence of its answers: \<open>get k\<close> is what the \<open>k\<close>-th call of this
  run returns (\<open>Inl\<close> when the call throws). \<open>k\<close> only counts the calls. The loop may run
  forever, so the model is a partial function and \<open>None\<close> is "does not return". The
  \<^verbatim>\<open>catch\<close> keeps what was pushed before the call that threw.
\<close>

partial_function (option) transactions_loop ::
  "(nat \<Rightarrow> error + tx_page) \<Rightarrow> nat \<Rightarrow> nat \<Rightarrow> transaction list \<Rightarrow> transaction list option"
where
  "transactions_loop get k offset tx =
     (case get k of
        Inl e \<Rightarrow> Some tx
      | Inr resp \<Rightarrow>
          (let total = total_transactions resp;
               tx' = tx @ transactions resp;
               offset' = offset + length (transactions resp)
           in if offset' < total then transactions_loop get (Suc k) offset' tx'
              else Some tx'))"

definition fetch_transactions :: "(nat \<Rightarrow> error + tx_page) \<Rightarrow> transaction list option" where
  "fetch_transactions get = transactions_loop get 0 0 []"

text \<open>What the upstream has handed over in its first \<open>n\<close> answers.\<close>

definition page_of :: "error + tx_page \<Rightarrow> transaction list" where
  "page_of r = (case r of Inl e \<Rightarrow> [] | Inr p \<Rightarrow> transactions p)"

definition received :: "(nat \<Rightarrow> error + tx_page) \<Rightarrow> nat \<Rightarrow> transaction list" where
  "received get n = concat (map (\<lambda>j. page_of (get j)) [0..<n])"

text \<open>
  A page that arrives while the count accumulated before it is below the total it
  reports is not empty.
\<close>

definition nonempty_below :: "(nat \<Rightarrow> error + tx_page) \<Rightarrow> bool" where
  "nonempty_below get \<longleftrightarrow>
     (\<forall>k p. get k = Inr p \<and> length (received get k) < total_transactions p
        \<longrightarrow> transactions p \<noteq> [])"

definition totals_bounded :: "(nat \<Rightarrow> error + tx_page) \<Rightarrow> nat \<Rightarrow> bool" where
  "totals_bounded get T \<longleftrightarrow> (\<forall>k p. get k = Inr p \<longrightarrow> total_transactions p \<le> T)"

text \<open>The loop goes on after answer \<open>j\<close>; the loop stops at answer \<open>n\<close>.\<close>

definition continues_at :: "(nat \<Rightarrow> error + tx_page) \<Rightarrow> nat \<Rightarrow> bool" where
  "continues_at get j \<longleftrightarrow>
     (case get j of Inl e \<Rightarrow> False
      | Inr p \<Rightarrow> length (received get (Suc j)) < total_transactions p)"


section \<open>Snapshot builder: accounts, liabilities, reshaping\<close>

text \<open>
  Step 1 (lines 70 to 84). \<open>None\<close> is the early return with \<^verbatim>\<open>accounts_failed\<close>.
  In the fallback every account gets \<^verbatim>\<open>balances: a.balances || {}\<close>.
\<close>

definition default_balances :: "account \<Rightarrow> account" where
  "default_balances a =
     a\<lparr>a_balances := Some (case a_balances a of None \<Rightarrow> [] | Some b \<Rightarrow> b)\<rparr>"

definition accounts_step :: "plaid \<Rightarrow> string \<Rightarrow> account list option" where
  "accounts_step up tok =
     (case accountsBalanceGet up tok of
        Inr accs \<Rightarrow> Some accs
      | Inl e1 \<Rightarrow>
          (case accountsGet up tok of
             Inr accs2 \<Rightarrow>
               Some (map default_balances (case accs2 of None \<Rightarrow> [] | Some xs \<Rightarrow> xs))
           | Inl e2 \<Rightarrow> None))"

text \<open>
  Step 2 (lines 87 to 113). \<^verbatim>\<open>liabByAccount\<close> is a plain object, \<^verbatim>\<open>{}\<close>, used as a
  dictionary from account identifiers to liability records; the three \<^verbatim>\<open>forEach\<close>
  write into it in turn, a later write replacing an earlier one. When
  \<^verbatim>\<open>liabilitiesGet\<close> throws, nothing has been written.
\<close>

definition credit_entry :: "credit_liability \<Rightarrow> liability" where
  "credit_entry c =
     \<lparr>apr_percentage = (case c_apr c of None \<Rightarrow> None | Some p \<Rightarrow> p),
      minimum_payment_amount = c_minimum_payment_amount c,
      next_payment_due_date = c_next_payment_due_date c\<rparr>"

definition student_entry :: "student_liability \<Rightarrow> liability" where
  "student_entry s =
     \<lparr>apr_percentage = s_interest_rate_percentage s,
      minimum_payment_amount = s_minimum_payment_amount s,
      next_payment_due_date = s_next_payment_due_date s\<rparr>"

definition mortgage_entry :: "mortgage_liability \<Rightarrow> liability" where
  "mortgage_entry m =
     \<lparr>apr_percentage =
        Some (case m_interest_rate m of None \<Rightarrow> 0
              | Some p \<Rightarrow> (case p of None \<Rightarrow> 0 | Some x \<Rightarrow> x)),
      minimum_payment_amount = m_next_monthly_payment m,
      next_payment_due_date = m_next_payment_due_date m\<rparr>"

definition or_nil :: "'a list option \<Rightarrow> 'a list" where
  "or_nil xs = (case xs of None \<Rightarrow> [] | Some ys \<Rightarrow> ys)"

text \<open>
  A plain object whose written values are liability records. It has its own properties
  and a prototype: \<^verbatim>\<open>Object.prototype\<close> to begin with (\<open>proto = None\<close>), or the record
  that a write under the key \<^verbatim>\<open>__proto__\<close> has put in its place (the inherited setter
  of that key replaces the prototype and creates no property); the prototype of such a
  record is \<^verbatim>\<open>Object.prototype\<close> again.
\<close>

record liab_object =
  own :: "string \<rightharpoonup> liability"
  proto :: "liability option"

definition empty_object :: liab_object where
  "empty_object = \<lparr>own = Map.empty, proto = None\<rparr>"

text \<open>
  The members of \<^verbatim>\<open>Object.prototype\<close> other than \<^verbatim>\<open>__proto__\<close>: functions, all of
  them truthy.
\<close>

definition object_prototype_members :: "string list" where
  "object_prototype_members =
     [''constructor'', ''__defineGetter__'', ''__defineSetter__'', ''hasOwnProperty'',
      ''__lookupGetter__'', ''__lookupSetter__'', ''isPrototypeOf'',
      ''propertyIsEnumerable'', ''toString'', ''valueOf'', ''toLocaleString'']"

text \<open>\<^verbatim>\<open>liabByAccount[k] = v\<close>\<close>

definition put :: "liab_object \<Rightarrow> string \<Rightarrow> liability \<Rightarrow> liab_object" where
  "put obj k v =
     (if k = ''__proto__'' then obj\<lparr>proto := Some v\<rparr>
      else obj\<lparr>own := (own obj)(k \<mapsto> v)\<rparr>)"

text \<open>
  \<^verbatim>\<open>liabByAccount[k] || null\<close>. The key \<^verbatim>\<open>__proto__\<close> reads the prototype itself,
  an object. Any other key reads the object's own property; failing that the field of
  that name of the record that is the prototype, if there is one; failing that the member
  of \<^verbatim>\<open>Object.prototype\<close> of that name. A number that is zero and an empty string are
  falsy, as \<^verbatim>\<open>null\<close> and \<^verbatim>\<open>undefined\<close> are.
\<close>

definition inherited :: "string \<Rightarrow> liability_value option" where
  "inherited k =
     (if k \<in> set object_prototype_members then Some (InheritedMember k) else None)"

definition truthy_number :: "int option \<Rightarrow> liability_value option" where
  "truthy_number x =
     (case x of None \<Rightarrow> None | Some n \<Rightarrow> if n = 0 then None else Some (NumberValue n))"

definition truthy_string :: "string option \<Rightarrow> liability_value option" where
  "truthy_string x =
     (case x of None \<Rightarrow> None | Some t \<Rightarrow> if t = [] then None else Some (StringValue t))"

definition get_or_null :: "liab_object \<Rightarrow> string \<Rightarrow> liability_value option" where
  "get_or_null obj k =
     (if k = ''__proto__'' then
        Some (case proto obj of
                None \<Rightarrow> InheritedMember ''__proto__''
              | Some l \<Rightarrow> LiabilityRecord l)
      else
        (case own obj k of
           Some l \<Rightarrow> Some (LiabilityRecord l)
         | None \<Rightarrow>
             (case proto obj of
                None \<Rightarrow> inherited k
              | Some l \<Rightarrow>
                  if k = ''apr_percentage'' then truthy_number (apr_percentage l)
                  else if k = ''minimum_payment_amount''
                    then truthy_number (minimum_payment_amount l)
                  else if k = ''next_payment_due_date''
                    then truthy_string (next_payment_due_date l)
                  else inherited k)))"

definition liabilities_step :: "plaid \<Rightarrow> string \<Rightarrow> liab_object" where
  "liabilities_step up tok =
     (case liabilitiesGet up tok of
        Inl e \<Rightarrow> empty_object
      | Inr L \<Rightarrow>
          (let cr = (case L of None \<Rightarrow> [] | Some l \<Rightarrow> or_nil (credit l));
               st = (case L of None \<Rightarrow> [] | Some l \<Rightarrow> or_nil (student l));
               mo = (case L of None \<Rightarrow> [] | Some l \<Rightarrow> or_nil (mortgage l));
               m1 = fold (\<lambda>c m. put m (c_account_id c) (credit_entry c)) cr empty_object;
               m2 = fold (\<lambda>s m. put m (s_account_id s) (student_entry s)) st m1
           in fold (\<lambda>g m. put m (m_account_id g) (mortgage_entry g)) mo m2))"

text \<open>
  \<^verbatim>\<open>new Map(accounts.map(a => [a.account_id, a]))\<close>: of two accounts with one
  identifier the later one stays.
\<close>

definition acctMap :: "account list \<Rightarrow> (string \<rightharpoonup> account)" where
  "acctMap accounts = fold (\<lambda>a m. m(a_account_id a \<mapsto> a)) accounts Map.empty"

text \<open>The two reshaping functions (lines 137 to 146 and 149 to 159).\<close>

definition shape_account :: "string \<Rightarrow> liab_object \<Rightarrow> account \<Rightarrow> account_out" where
  "shape_account instName liabByAccount a =
     \<lparr>ao_institution = instName,
      ao_name = or_else (a_name a) (or_else (a_official_name a)
                  (or_else (a_mask a) (a_account_id a))),
      ao_nickname = or_else (a_official_name a) [],
      ao_mask = or_else (a_mask a) [],
      ao_type = or_else (a_type a) [],
      ao_subtype = or_else (a_subtype a) [],
      ao_balances = (case a_balances a of None \<Rightarrow> [] | Some b \<Rightarrow> b),
      ao_liability = get_or_null liabByAccount (a_account_id a)\<rparr>"

definition shape_transaction ::
  "string \<Rightarrow> (string \<rightharpoonup> account) \<Rightarrow> transaction \<Rightarrow> transaction_out" where
  "shape_transaction instName amap t =
     (let a = amap (t_account_id t) in
      \<lparr>to_date = t_date t,
       to_name = or_else (t_name t) (or_else (t_merchant_name t) (or_else (t_payee t) [])),
       to_amount = t_amount t,
       to_category = or_nil (t_category t),
       to_institution = instName,
       to_nickname =
         (case a of None \<Rightarrow> []
          | Some a' \<Rightarrow> or_else (a_name a') (or_else (a_official_name a') []))\<rparr>)"

text \<open>
  \<^verbatim>\<open>fetchItemSnapshot(row, rangeDays)\<close>. The date range of the request is not part of
  the model. Every call to the API is inside a \<^verbatim>\<open>try\<close>, so the function throws nothing;
  it does not return when the pagination does not.
\<close>

definition fetchItemSnapshot :: "plaid \<Rightarrow> item_row \<Rightarrow> snapshot option" where
  "fetchItemSnapshot up row =
     (let tok = access_token row in
      case accounts_step up tok of
        None \<Rightarrow>
          Some \<lparr>snap_accounts = [], snap_transactions = [],
                snap_error = Some ''accounts_failed''\<rparr>
      | Some accounts \<Rightarrow>
          (let liabByAccount = liabilities_step up tok;
               amap = acctMap accounts;
               instName = or_else (institution_name row) []
           in case fetch_transactions (transactionsGet up tok) of
                None \<Rightarrow> None
              | Some tx \<Rightarrow>
                  Some \<lparr>snap_accounts = map (shape_account instName liabByAccount) accounts,
                        snap_transactions = map (shape_transaction instName amap) tx,
                        snap_error = None\<rparr>))"

text \<open>Both account calls throw.\<close>

definition accounts_both_fail :: "plaid \<Rightarrow> string \<Rightarrow> bool" where
  "accounts_both_fail up tok \<longleftrightarrow>
     (case accountsBalanceGet up tok of
        Inr x \<Rightarrow> False
      | Inl e1 \<Rightarrow> (case accountsGet up tok of Inr y \<Rightarrow> False | Inl e2 \<Rightarrow> True))"

section \<open>HTTP handlers\<close>

text \<open>
  A handler answers with a status and a JSON body and leaves the tables, and the dashboard
  file, in a new state. A handler whose loop does not end gives no answer (\<open>None\<close>).
\<close>

record sync_summary =
  sum_item_id :: string
  sum_added :: nat
  sum_modified :: nat
  sum_removed :: nat

datatype balances_item =
  ItemAccounts string "account list"   \<comment> \<open>\<^verbatim>\<open>{item_id, accounts}\<close>\<close>
| ItemError string error               \<comment> \<open>\<^verbatim>\<open>{item_id, error}\<close>\<close>

datatype body =
  ErrorBody string                                      \<comment> \<open>\<^verbatim>\<open>{error}\<close>\<close>
| ExchangeOk string                                     \<comment> \<open>\<^verbatim>\<open>{item_id}\<close>\<close>
| SyncOk string nat nat nat "transaction list"
    \<comment> \<open>\<^verbatim>\<open>{item_id, added_count, modified_count, removed_count, sample_added}\<close>\<close>
| SyncAllOk "sync_summary list" nat                     \<comment> \<open>\<^verbatim>\<open>{items, total_added}\<close>\<close>
| BalancesOk "balances_item list"                       \<comment> \<open>\<^verbatim>\<open>{items}\<close>\<close>
| RefreshDashboardOk nat nat nat
    \<comment> \<open>\<^verbatim>\<open>{ok: true, accounts, transactions, errors}\<close>\<close>

record response =
  status :: nat
  body :: body

subsection \<open>\<^verbatim>\<open>POST /api/exchange_public_token\<close>\<close>

definition exchange_public_token ::
  "plaid \<Rightarrow> store \<Rightarrow> string option \<Rightarrow> string option \<Rightarrow> response \<times> store" where
  "exchange_public_token up db public_token inst =
     (case public_token of
        None \<Rightarrow> (\<lparr>status = 400, body = ErrorBody ''missing_public_token''\<rparr>, db)
      | Some pt \<Rightarrow>
          if pt = [] then (\<lparr>status = 400, body = ErrorBody ''missing_public_token''\<rparr>, db)
          else
            (case itemPublicTokenExchange up pt of
               Inl e \<Rightarrow> (\<lparr>status = 500, body = ErrorBody ''exchange_failed''\<rparr>, db)
             | Inr (tok, i) \<Rightarrow>
                 (\<lparr>status = 200, body = ExchangeOk i\<rparr>,
                  insertItem db
                    \<lparr>item_id = i, access_token = tok,
                     institution_name =
                       (case inst of None \<Rightarrow> None
                        | Some n \<Rightarrow> if n = [] then None else Some n)\<rparr>)))"

subsection \<open>\<^verbatim>\<open>POST /api/transactions/sync\<close>\<close>

text \<open>
  The \<^verbatim>\<open>while (hasMore)\<close> loop of lines 242 to 254; \<^verbatim>\<open>hasMore\<close> starts as true, so
  the body runs at least once. \<open>Inl\<close> is the exception that leaves the loop for the
  \<^verbatim>\<open>catch\<close> of the handler.
\<close>

partial_function (option) sync_loop ::
  "(nat \<Rightarrow> error + sync_page) \<Rightarrow> nat \<Rightarrow> string option \<Rightarrow>
   transaction list \<Rightarrow> transaction list \<Rightarrow> string list \<Rightarrow>
   (error + (string option \<times> transaction list \<times> transaction list \<times> string list)) option"
where
  "sync_loop get k cursor added' modified' removed' =
     (case get k of
        Inl e \<Rightarrow> Some (Inl e)
      | Inr d \<Rightarrow>
          (let a = added' @ added d;
               m = modified' @ modified d;
               r = removed' @ removed d;
               c = Some (next_cursor d)
           in if has_more d then sync_loop get (Suc k) c a m r
              else Some (Inr (c, a, m, r))))"

text \<open>The first \<open>k\<close> answers are pages that each announce more.\<close>

definition more_before :: "(nat \<Rightarrow> error + sync_page) \<Rightarrow> nat \<Rightarrow> bool" where
  "more_before get k \<longleftrightarrow> (\<forall>j<k. \<exists>p. get j = Inr p \<and> has_more p)"

definition sync :: "plaid \<Rightarrow> store \<Rightarrow> string option \<Rightarrow> (response \<times> store) option" where
  "sync up db req_item_id =
     (case req_item_id of
        None \<Rightarrow> Some (\<lparr>status = 400, body = ErrorBody ''missing_item_id''\<rparr>, db)
      | Some i \<Rightarrow>
          if i = [] then Some (\<lparr>status = 400, body = ErrorBody ''missing_item_id''\<rparr>, db)
          else
            (case getOneItem db i of
               None \<Rightarrow> Some (\<lparr>status = 404, body = ErrorBody ''unknown_item''\<rparr>, db)
             | Some row \<Rightarrow>
                 (case sync_loop (transactionsSync up (access_token row)) 0
                         (getCursor db i) [] [] [] of
                    None \<Rightarrow> None
                  | Some (Inl e) \<Rightarrow>
                      Some (\<lparr>status = 500, body = ErrorBody ''sync_failed''\<rparr>, db)
                  | Some (Inr (cursor, a, m, r)) \<Rightarrow>
                      Some (\<lparr>status = 200,
                             body = SyncOk i (length a) (length m) (length r) (take 5 a)\<rparr>,
                            upsertCursor db i cursor))))"

subsection \<open>\<^verbatim>\<open>POST /api/transactions/sync-all\<close>\<close>

text \<open>The inner loop counts instead of collecting (lines 271 to 283).\<close>

partial_function (option) sync_count_loop ::
  "(nat \<Rightarrow> error + sync_page) \<Rightarrow> nat \<Rightarrow> string option \<Rightarrow> nat \<Rightarrow> nat \<Rightarrow> nat \<Rightarrow>
   (error + (string option \<times> nat \<times> nat \<times> nat)) option"
where
  "sync_count_loop get k cursor added' modified' removed' =
     (case get k of
        Inl e \<Rightarrow> Some (Inl e)
      | Inr d \<Rightarrow>
          (let a = added' + length (added d);
               m = modified' + length (modified d);
               r = removed' + length (removed d);
               c = Some (next_cursor d)
           in if has_more d then sync_count_loop get (Suc k) c a m r
              else Some (Inr (c, a, m, r))))"

text \<open>
  The \<^verbatim>\<open>for (const r of rows)\<close> loop of lines 268 to 286. Nothing inside it catches: an
  exception of the inner loop leaves the \<^verbatim>\<open>for\<close> loop too, with the cursors written so
  far.
\<close>

fun sync_all_items ::
  "plaid \<Rightarrow> item_row list \<Rightarrow> store \<Rightarrow> sync_summary list \<Rightarrow>
   ((error + sync_summary list) \<times> store) option"
where
  "sync_all_items up [] db summary = Some (Inr summary, db)"
| "sync_all_items up (r # rows) db summary =
     (case sync_count_loop (transactionsSync up (access_token r)) 0
             (getCursor db (item_id r)) 0 0 0 of
        None \<Rightarrow> None
      | Some (Inl e) \<Rightarrow> Some (Inl e, db)
      | Some (Inr (cursor, a, m, rm)) \<Rightarrow>
          sync_all_items up rows (upsertCursor db (item_id r) cursor)
            (summary @ [\<lparr>sum_item_id = item_id r, sum_added = a,
                          sum_modified = m, sum_removed = rm\<rparr>]))"

definition sync_all :: "plaid \<Rightarrow> store \<Rightarrow> (response \<times> store) option" where
  "sync_all up db =
     (case sync_all_items up (getAccessTokens db) db [] of
        None \<Rightarrow> None
      | Some (Inl e, db') \<Rightarrow>
          Some (\<lparr>status = 500, body = ErrorBody ''sync_all_failed''\<rparr>, db')
      | Some (Inr summary, db') \<Rightarrow>
          Some (\<lparr>status = 200,
                 body = SyncAllOk summary (sum_list (map sum_added summary))\<rparr>, db'))"

subsection \<open>\<^verbatim>\<open>GET /api/balances\<close>\<close>

text \<open>
  The first \<^verbatim>\<open>try\<close> of the loop body is
  \<^verbatim>\<open>items.push({ item_id: r.item_id, accounts: b.data.accounts })\<close>. No \<^verbatim>\<open>b\<close> is declared
  anywhere in the module, and the file is an ES module: reading \<^verbatim>\<open>b\<close> throws a
  ReferenceError while the argument is built, before \<^verbatim>\<open>push\<close> is called.
\<close>

definition balances_primary :: "plaid \<Rightarrow> item_row \<Rightarrow> error + balances_item" where
  "balances_primary up r = Inl (ReferenceError ''b is not defined'')"

definition balances_fallback :: "plaid \<Rightarrow> item_row \<Rightarrow> balances_item" where
  "balances_fallback up r =
     (case accountsGet up (access_token r) of
        Inr a \<Rightarrow> ItemAccounts (item_id r) (map default_balances (or_nil a))
      | Inl err2 \<Rightarrow> ItemError (item_id r) err2)"

definition balances_item_of :: "plaid \<Rightarrow> item_row \<Rightarrow> balances_item" where
  "balances_item_of up r =
     (case balances_primary up r of
        Inr entry \<Rightarrow> entry
      | Inl err \<Rightarrow> balances_fallback up r)"

definition balances :: "plaid \<Rightarrow> store \<Rightarrow> response" where
  "balances up db =
     \<lparr>status = 200, body = BalancesOk (map (balances_item_of up) (getAccessTokens db))\<rparr>"

subsection \<open>\<^verbatim>\<open>POST /refresh_dashboard\<close>\<close>

text \<open>
  The file \<^verbatim>\<open>dashboard_data.json\<close> holds
  \<^verbatim>\<open>{last_updated, accounts, transactions, errors}\<close>; \<^verbatim>\<open>errors\<close> lists the snapshots
  that carry an error, each with its item identifier. Writing the file is taken to
  succeed.
\<close>

record dashboard =
  last_updated :: string
  d_accounts :: "account_out list"
  d_transactions :: "transaction_out list"
  d_errors :: "(string \<times> snapshot) list"

text \<open>
  What the handler asks of the outside, in the order it asks: a forced refresh for an
  access token, a snapshot for an item identifier.
\<close>

datatype outbound = TransactionsRefresh string | FetchItemSnapshot string

text \<open>
  Lines 500 to 509. \<^verbatim>\<open>fetchItemSnapshot\<close> throws nothing, so the \<^verbatim>\<open>catch\<close> that
  would record \<^verbatim>\<open>snapshot_failed\<close> has no case here.
\<close>

fun build_snapshots :: "plaid \<Rightarrow> item_row list \<Rightarrow> (string \<times> snapshot) list option" where
  "build_snapshots up [] = Some []"
| "build_snapshots up (r # rows) =
     (case fetchItemSnapshot up r of
        None \<Rightarrow> None
      | Some snap \<Rightarrow>
          (case build_snapshots up rows of
             None \<Rightarrow> None
           | Some rest \<Rightarrow> Some ((item_id r, snap) # rest)))"

text \<open>
  \<open>secret\<close> is \<^verbatim>\<open>process.env.DASHBOARD_REFRESH_TOKEN\<close>, \<open>hdr\<close> the request header
  \<^verbatim>\<open>X-Refresh-Token\<close>, \<open>now\<close> the time stamp, \<open>file\<close> the contents of the file
  (\<open>None\<close>: no file yet). The answer comes with the new contents and the outbound
  requests made, the answers to the forced refreshes being thrown away.
\<close>

definition refresh_dashboard ::
  "plaid \<Rightarrow> string option \<Rightarrow> string \<Rightarrow> store \<Rightarrow> dashboard option \<Rightarrow> string option \<Rightarrow>
   (response \<times> dashboard option \<times> outbound list) option"
where
  "refresh_dashboard up secret now db file header =
     (let hdr = (case header of None \<Rightarrow> [] | Some h \<Rightarrow> h) in
      if (case secret of None \<Rightarrow> True | Some s \<Rightarrow> s = [] \<or> hdr \<noteq> s)
      then Some (\<lparr>status = 401, body = ErrorBody ''unauthorized''\<rparr>, file, [])
      else
        (let rows = getAccessTokens db;
             refreshes = map (\<lambda>r. TransactionsRefresh (access_token r)) rows
         in case build_snapshots up rows of
              None \<Rightarrow> None
            | Some snapshots \<Rightarrow>
                (let accounts = concat (map (\<lambda>s. snap_accounts (snd s)) snapshots);
                     txs = concat (map (\<lambda>s. snap_transactions (snd s)) snapshots);
                     out = \<lparr>last_updated = now, d_accounts = accounts,
                            d_transactions = txs,
                            d_errors =
                              filter (\<lambda>s. or_else (snap_error (snd s)) [] \<noteq> []) snapshots\<rparr>
                 in Some (\<lparr>status = 200,
                           body = RefreshDashboardOk (length accounts) (length txs)
                                    (length (d_errors out))\<rparr>,
                          Some out,
                          refreshes @ map (\<lambda>r. FetchItemSnapshot (item_id r)) rows))))"

subsection \<open>The server as a whole\<close>

text \<open>
  Every route of the file. The routes that are not spelled out above run only
  \<^verbatim>\<open>SELECT\<close> statements (\<^verbatim>\<open>getAccessTokens\<close>, \<^verbatim>\<open>getOneItem\<close>) and calls to the API:
  they leave the tables and the file as they are.
\<close>

datatype request =
  CreateLinkToken
| LinkTokenUpdate "string option"
| ExchangePublicToken "string option" "string option"
| ListItems
| TransactionsSync "string option"
| TransactionsSyncAll
| TransactionsRefreshAll
| TransactionsRecurring
| Accounts
| Balances
| Liabilities
| AssetsCreate
| AssetsGet
| AssetsPdf
| AssetsRemove
| Enrich
| OauthRedirect
| DashboardData
| RefreshDashboard "string option"

record server =
  db :: store
  dash_json :: "dashboard option"

record env =
  refresh_token :: "string option"
  clock :: string

fun handle :: "plaid \<Rightarrow> env \<Rightarrow> server \<Rightarrow> request \<Rightarrow> server option" where
  "handle up ev sv (ExchangePublicToken pt inst) =
     Some (sv\<lparr>db := snd (exchange_public_token up (db sv) pt inst)\<rparr>)"
| "handle up ev sv (TransactionsSync i) =
     map_option (\<lambda>res. sv\<lparr>db := snd res\<rparr>) (sync up (db sv) i)"
| "handle up ev sv TransactionsSyncAll =
     map_option (\<lambda>res. sv\<lparr>db := snd res\<rparr>) (sync_all up (db sv))"
| "handle up ev sv (RefreshDashboard header) =
     map_option (\<lambda>res. sv\<lparr>dash_json := fst (snd res)\<rparr>)
       (refresh_dashboard up (refresh_token ev) (clock ev) (db sv) (dash_json sv) header)"
| "handle up ev sv other = Some sv"

section \<open>Concrete inputs\<close>

text \<open>One linked bank with a checking account and two transactions on it.\<close>

definition acct1 :: account where
  "acct1 = \<lparr>a_account_id = ''acc-1'', a_name = Some ''Checking'',
            a_official_name = Some ''Gold Checking'', a_mask = Some ''0000'',
            a_type = Some ''depository'', a_subtype = Some ''checking'',
            a_balances = Some [(''current'', JNum 110)]\<rparr>"

definition acct2 :: account where
  "acct2 = \<lparr>a_account_id = ''acc-2'', a_name = None,
            a_official_name = Some ''Plain Savings'', a_mask = None,
            a_type = Some ''depository'', a_subtype = Some ''savings'',
            a_balances = None\<rparr>"

definition tx1 :: transaction where
  "tx1 = \<lparr>t_account_id = ''acc-1'', t_date = ''2024-01-01'', t_name = None,
          t_merchant_name = Some ''Grocer'', t_payee = None, t_amount = 12,
          t_category = Some [''Food'']\<rparr>"

definition tx2 :: transaction where
  "tx2 = \<lparr>t_account_id = ''acc-1'', t_date = ''2024-01-02'', t_name = Some ''Rent'',
          t_merchant_name = None, t_payee = None, t_amount = 900, t_category = None\<rparr>"

text \<open>Two pages of one transaction each, both reporting a total of two.\<close>

definition two_pages :: "nat \<Rightarrow> error + tx_page" where
  "two_pages k =
     (if k = 0 then Inr \<lparr>transactions = [tx1], total_transactions = 2\<rparr>
      else Inr \<lparr>transactions = [tx2], total_transactions = 2\<rparr>)"

text \<open>
  An upstream whose reported total grows with every page: each page holds one
  transaction and reports two more than the pages before it held.
\<close>

definition growing :: "nat \<Rightarrow> error + tx_page" where
  "growing k = Inr \<lparr>transactions = [tx1], total_transactions = k + 2\<rparr>"

text \<open>
  Three items. For \<open>tok-A\<close> the balances call answers; for \<open>tok-B\<close> only the call
  without balances answers; for \<open>tok-C\<close> both throw. The liabilities call throws for
  every item. The incremental sync of \<open>tok-A\<close> answers once, with more to come, and then
  throws; for the other tokens it answers once and is done.
\<close>

definition demo_plaid :: plaid where
  "demo_plaid =
     \<lparr>accountsBalanceGet =
        (\<lambda>tok. if tok = ''tok-A'' then Inr [acct1] else Inl (UpstreamError ''balance'')),
      accountsGet =
        (\<lambda>tok. if tok = ''tok-C'' then Inl (UpstreamError ''accounts'')
               else Inr (Some [acct2])),
      liabilitiesGet = (\<lambda>tok. Inl (UpstreamError ''liabilities'')),
      transactionsGet = (\<lambda>tok. two_pages),
      transactionsSync =
        (\<lambda>tok k.
           if tok = ''tok-A'' then
             (if k = 0 then
                Inr \<lparr>added = [tx1], modified = [], removed = [],
                     next_cursor = ''c1'', has_more = True\<rparr>
              else Inl (UpstreamError ''sync''))
           else Inr \<lparr>added = [tx2], modified = [], removed = [],
                     next_cursor = ''d1'', has_more = False\<rparr>),
      transactionsRefresh = (\<lambda>tok. Inr ()),
      itemPublicTokenExchange = (\<lambda>pt. Inr (''tok-new'', ''item-A''))\<rparr>"

text \<open>
  The same upstream, except that the balances call answers with two accounts, the second
  of which has the identifier \<open>constructor\<close>.
\<close>

definition acct3 :: account where
  "acct3 = \<lparr>a_account_id = ''constructor'', a_name = Some ''Card'',
            a_official_name = None, a_mask = None,
            a_type = Some ''credit'', a_subtype = None, a_balances = None\<rparr>"

definition inherited_plaid :: plaid where
  "inherited_plaid = demo_plaid\<lparr>accountsBalanceGet := (\<lambda>tok. Inr [acct1, acct3])\<rparr>"

definition rowA :: item_row where
  "rowA = \<lparr>item_id = ''item-A'', access_token = ''tok-A'', institution_name = Some ''Bank A''\<rparr>"

definition rowB :: item_row where
  "rowB = \<lparr>item_id = ''item-B'', access_token = ''tok-B'', institution_name = None\<rparr>"

definition rowC :: item_row where
  "rowC = \<lparr>item_id = ''item-C'', access_token = ''tok-C'', institution_name = Some ''Bank C''\<rparr>"

definition demo_store :: store where
  "demo_store = \<lparr>items = [rowA, rowB, rowC], cursors = [''item-A'' \<mapsto> Some ''c0'']\<rparr>"

section \<open>Transaction pagination ends\<close>

lemma received_Suc: "received get (Suc n) = received get n @ page_of (get n)"
  by (simp add: received_def)

lemma transactions_loop_from:
  assumes b: "totals_bounded get T" and ne: "nonempty_below get"
  shows "\<exists>n\<ge>k. transactions_loop get k (length (received get k)) (received get k)
            = Some (received get (Suc n))
          \<and> (\<forall>j. k \<le> j \<and> j < n \<longrightarrow> continues_at get j)
          \<and> \<not> continues_at get n"
proof (induction "T - length (received get k)" arbitrary: k rule: less_induct)
  case less
  show ?case
  proof (cases "get k")
    case (Inl e)
    then have "transactions_loop get k (length (received get k)) (received get k)
        = Some (received get (Suc k))"
      by (subst transactions_loop.simps) (simp add: received_Suc page_of_def)
    moreover have "\<not> continues_at get k" using Inl by (simp add: continues_at_def)
    ultimately show ?thesis by (intro exI[of _ k]) auto
  next
    case (Inr p)
    have rs: "received get (Suc k) = received get k @ transactions p"
      using Inr by (simp add: received_Suc page_of_def)
    show ?thesis
    proof (cases "length (received get (Suc k)) < total_transactions p")
      case False
      then have "transactions_loop get k (length (received get k)) (received get k)
          = Some (received get (Suc k))"
        using Inr rs by (subst transactions_loop.simps) (simp add: Let_def)
      moreover have "\<not> continues_at get k" using Inr False by (simp add: continues_at_def)
      ultimately show ?thesis by (intro exI[of _ k]) auto
    next
      case True
      then have step: "transactions_loop get k (length (received get k)) (received get k)
          = transactions_loop get (Suc k) (length (received get (Suc k))) (received get (Suc k))"
        using Inr rs by (subst transactions_loop.simps) (simp add: Let_def)
      have ck: "continues_at get k" using Inr True by (simp add: continues_at_def)
      have "length (received get k) < total_transactions p" using True rs by simp
      then have "transactions p \<noteq> []" using ne Inr by (auto simp: nonempty_below_def)
      then have "0 < length (transactions p)" by simp
      moreover have "total_transactions p \<le> T" using b Inr by (auto simp: totals_bounded_def)
      moreover have "length (received get (Suc k)) = length (received get k) + length (transactions p)"
        using rs by simp
      ultimately have "T - length (received get (Suc k)) < T - length (received get k)"
        using True by linarith
      from less[OF this] obtain n where n: "Suc k \<le> n"
        "transactions_loop get (Suc k) (length (received get (Suc k))) (received get (Suc k))
            = Some (received get (Suc n))"
        "\<forall>j. Suc k \<le> j \<and> j < n \<longrightarrow> continues_at get j" "\<not> continues_at get n"
        by blast
      have "\<forall>j. k \<le> j \<and> j < n \<longrightarrow> continues_at get j"
      proof (intro allI impI)
        fix j assume "k \<le> j \<and> j < n"
        then show "continues_at get j" using ck n(3) by (cases "j = k") auto
      qed
      then show ?thesis using n step by (intro exI[of _ n]) simp
    qed
  qed
qed

lemma growing_never_returns:
  assumes "transactions_loop g k off tx = Some y"
  shows "\<not> (g = growing \<and> off = k)"
  by (rule transactions_loop.raw_induct
        [where P = "\<lambda>g k off tx y. \<not> (g = growing \<and> off = k)", OF _ assms])
     (fastforce simp: growing_def Let_def split: if_splits)

text \<open>
  Claim C1, as amended. When the totals that the upstream reports stay below one bound
  (as they do when every answer reports the same total), and every page that arrives
  while the count accumulated before it is below the total it reports is non-empty, the
  pagination loop of the snapshot builder returns. It stops at the first answer \<open>n\<close>
  that is an exception or after which the accumulated count has reached the total that
  answer reports, and at no answer before that; the list it returns is everything the
  upstream handed over up to and including answer \<open>n\<close>, the final page.
\<close>

theorem transactions_fetch_terminates:
  assumes "totals_bounded get T" and "nonempty_below get"
  shows "\<exists>n. fetch_transactions get = Some (received get (Suc n))
           \<and> (\<forall>j<n. continues_at get j) \<and> \<not> continues_at get n"
  using transactions_loop_from[OF assms, of 0]
  by (auto simp: fetch_transactions_def received_def)

text \<open>The theorem at two pages of one transaction each, with a total of two.\<close>

theorem transactions_fetch_terminates_witness:
  "totals_bounded two_pages 2 \<and> nonempty_below two_pages \<and>
   (\<exists>n. fetch_transactions two_pages = Some (received two_pages (Suc n))
      \<and> (\<forall>j<n. continues_at two_pages j) \<and> \<not> continues_at two_pages n)"
proof -
  have b: "totals_bounded two_pages 2"
    by (simp add: totals_bounded_def two_pages_def)
  have ne: "nonempty_below two_pages"
    by (simp add: nonempty_below_def two_pages_def)
  show ?thesis using b ne transactions_fetch_terminates[OF b ne] by simp
qed

text \<open>
  Claim C1 as written fails: non-empty pages alone do not end the loop. The loop reads
  the total anew from every answer; against an upstream whose every page is non-empty
  and reports a total larger than what has been handed over so far, it never returns.
\<close>

theorem transactions_fetch_growing_total_counterexample:
  "nonempty_below growing \<and> fetch_transactions growing = None"
proof -
  have "nonempty_below growing"
    by (simp add: nonempty_below_def growing_def)
  moreover have "fetch_transactions growing = None"
    using growing_never_returns[of growing 0 0 "[]"]
    by (cases "fetch_transactions growing") (auto simp: fetch_transactions_def)
  ultimately show ?thesis by simp
qed

section \<open>The snapshot builder degrades per source\<close>

lemma accounts_step_None: "accounts_step up tok = None \<longleftrightarrow> accounts_both_fail up tok"
  by (simp add: accounts_step_def accounts_both_fail_def split: sum.splits)

lemma fetchItemSnapshot_failed:
  assumes "accounts_step up (access_token row) = None"
  shows "fetchItemSnapshot up row =
    Some \<lparr>snap_accounts = [], snap_transactions = [], snap_error = Some ''accounts_failed''\<rparr>"
  using assms by (simp add: fetchItemSnapshot_def)

lemma fetchItemSnapshot_shaped:
  assumes "accounts_step up (access_token row) = Some accs"
  shows "fetchItemSnapshot up row =
    map_option
      (\<lambda>tx. \<lparr>snap_accounts =
               map (shape_account (or_else (institution_name row) [])
                      (liabilities_step up (access_token row))) accs,
             snap_transactions =
               map (shape_transaction (or_else (institution_name row) []) (acctMap accs)) tx,
             snap_error = None\<rparr>)
      (fetch_transactions (transactionsGet up (access_token row)))"
  using assms by (simp add: fetchItemSnapshot_def Let_def split: option.splits)

lemma demo_fetch: "fetch_transactions (transactionsGet demo_plaid t) = Some [tx1, tx2]"
  by (simp add: demo_plaid_def fetch_transactions_def transactions_loop.simps two_pages_def)

lemma liabilities_step_failed:
  "liabilitiesGet up tok = Inl e \<Longrightarrow> liabilities_step up tok = empty_object"
  by (simp add: liabilities_step_def)

lemma get_or_null_empty:
  "get_or_null empty_object k =
     (if k = ''__proto__'' \<or> k \<in> set object_prototype_members
      then Some (InheritedMember k) else None)"
  by (auto simp: get_or_null_def empty_object_def inherited_def)

text \<open>
  Claim C4. When both account calls throw, \<^verbatim>\<open>fetchItemSnapshot\<close> returns exactly
  \<^verbatim>\<open>{accounts: [], transactions: [], error: 'accounts_failed'}\<close>. When one of them
  answers, it returns exactly when the pagination does. Whatever it returns carries an
  error marker if and only if both account calls threw: neither a failing liabilities
  call nor a failing transactions call puts a marker there.
\<close>

theorem snapshot_error_marker:
  "(accounts_both_fail up (access_token row) \<longrightarrow>
      fetchItemSnapshot up row =
        Some \<lparr>snap_accounts = [], snap_transactions = [],
              snap_error = Some ''accounts_failed''\<rparr>)
   \<and> (\<not> accounts_both_fail up (access_token row) \<longrightarrow>
        (fetchItemSnapshot up row = None
           \<longleftrightarrow> fetch_transactions (transactionsGet up (access_token row)) = None))
   \<and> (\<forall>s. fetchItemSnapshot up row = Some s \<longrightarrow>
        (snap_error s \<noteq> None \<longleftrightarrow> accounts_both_fail up (access_token row)))"
proof (cases "accounts_step up (access_token row)")
  case None
  then show ?thesis
    using fetchItemSnapshot_failed[OF None] by (auto simp: accounts_step_None)
next
  case (Some accs)
  then have "\<not> accounts_both_fail up (access_token row)"
    using accounts_step_None[of up "access_token row"] by simp
  then show ?thesis
    using fetchItemSnapshot_shaped[OF Some] by auto
qed

text \<open>
  The theorem at an item for which both calls throw, and at one for which the second
  answers.
\<close>

theorem snapshot_error_marker_witness:
  "accounts_both_fail demo_plaid (access_token rowC) \<and>
   fetchItemSnapshot demo_plaid rowC =
     Some \<lparr>snap_accounts = [], snap_transactions = [], snap_error = Some ''accounts_failed''\<rparr> \<and>
   \<not> accounts_both_fail demo_plaid (access_token rowB) \<and>
   fetchItemSnapshot demo_plaid rowB \<noteq> None \<and>
   snap_error (the (fetchItemSnapshot demo_plaid rowB)) = None"
proof -
  have c: "accounts_both_fail demo_plaid (access_token rowC)"
    by (simp add: accounts_both_fail_def demo_plaid_def rowC_def)
  have b: "\<not> accounts_both_fail demo_plaid (access_token rowB)"
    by (simp add: accounts_both_fail_def demo_plaid_def rowB_def)
  show ?thesis
    using c b snapshot_error_marker[of demo_plaid rowC] snapshot_error_marker[of demo_plaid rowB]
      demo_fetch[of "access_token rowB"]
    by auto
qed

text \<open>
  When the liabilities call throws and the accounts step succeeds with accounts none of
  whose identifiers is the name of a member of \<^verbatim>\<open>Object.prototype\<close>, the snapshot has
  one record for each account, every record has \<^verbatim>\<open>liability: null\<close>, and the
  snapshot carries no error marker.
\<close>

lemma liabilities_failure_plain_identifiers:
  assumes "liabilitiesGet up (access_token row) = Inl e"
    and "accounts_step up (access_token row) = Some accs"
    and "fetch_transactions (transactionsGet up (access_token row)) = Some tx"
    and "\<forall>a \<in> set accs. a_account_id a \<noteq> ''__proto__''
            \<and> a_account_id a \<notin> set object_prototype_members"
  shows "\<exists>s. fetchItemSnapshot up row = Some s
           \<and> length (snap_accounts s) = length accs
           \<and> (\<forall>a \<in> set (snap_accounts s). ao_liability a = None)
           \<and> snap_error s = None"
  using fetchItemSnapshot_shaped[OF assms(2)] assms(3,4) liabilities_step_failed[OF assms(1)]
  by (auto simp: shape_account_def get_or_null_empty)

text \<open>
  Claim C5 does not hold of the code. \<^verbatim>\<open>liabByAccount\<close> is a plain object, so a read
  under a key it does not own falls through to \<^verbatim>\<open>Object.prototype\<close>. With the
  liabilities call throwing and the accounts step answering with the accounts \<open>acc-1\<close>
  and \<open>constructor\<close>, the snapshot carries no error marker, the record of \<open>acc-1\<close> has
  \<^verbatim>\<open>liability: null\<close>, and the record of \<open>constructor\<close> has the inherited member
  \<^verbatim>\<open>constructor\<close> as its liability, not \<^verbatim>\<open>null\<close>.
\<close>

theorem liabilities_failure_inherited_member:
  "liabilitiesGet inherited_plaid (access_token rowA) = Inl (UpstreamError ''liabilities'')
   \<and> accounts_step inherited_plaid (access_token rowA) = Some [acct1, acct3]
   \<and> map a_account_id [acct1, acct3] = [''acc-1'', ''constructor'']
   \<and> map_option (\<lambda>s. (map ao_liability (snap_accounts s), snap_error s))
        (fetchItemSnapshot inherited_plaid rowA)
      = Some ([None, Some (InheritedMember ''constructor'')], None)"
proof -
  have l: "liabilitiesGet inherited_plaid (access_token rowA)
             = Inl (UpstreamError ''liabilities'')"
    by (simp add: inherited_plaid_def demo_plaid_def)
  have a: "accounts_step inherited_plaid (access_token rowA) = Some [acct1, acct3]"
    by (simp add: accounts_step_def inherited_plaid_def)
  have t: "fetch_transactions (transactionsGet inherited_plaid (access_token rowA))
             = Some [tx1, tx2]"
    using demo_fetch[of "access_token rowA"] by (simp add: inherited_plaid_def)
  have g: "get_or_null empty_object ''acc-1'' = None"
    "get_or_null empty_object ''constructor'' = Some (InheritedMember ''constructor'')"
    by (simp_all add: get_or_null_empty object_prototype_members_def)
  have i: "map a_account_id [acct1, acct3] = [''acc-1'', ''constructor'']"
    by (simp add: acct1_def acct3_def)
  have r: "map_option (\<lambda>s. (map ao_liability (snap_accounts s), snap_error s))
        (fetchItemSnapshot inherited_plaid rowA)
      = Some ([None, Some (InheritedMember ''constructor'')], None)"
    using fetchItemSnapshot_shaped[OF a] t liabilities_step_failed[OF l] g
    by (simp add: shape_account_def acct1_def acct3_def)
  show ?thesis using l a i r by simp
qed

text \<open>
  Claim C6. When the balances call throws and the call without balances answers, the
  snapshot has one record for each account of the answer, and the \<^verbatim>\<open>balances\<close> of
  the record is the account's own \<^verbatim>\<open>balances\<close>, or the empty object when the account
  has none.
\<close>

theorem fallback_accounts_carry_balances:
  assumes "accountsBalanceGet up (access_token row) = Inl e1"
    and "accountsGet up (access_token row) = Inr accs"
    and "fetch_transactions (transactionsGet up (access_token row)) = Some tx"
  shows "\<exists>s. fetchItemSnapshot up row = Some s
           \<and> map ao_balances (snap_accounts s)
               = map (\<lambda>a. case a_balances a of None \<Rightarrow> [] | Some b \<Rightarrow> b) (or_nil accs)"
proof -
  have "accounts_step up (access_token row) = Some (map default_balances (or_nil accs))"
    using assms(1,2) by (simp add: accounts_step_def or_nil_def)
  from fetchItemSnapshot_shaped[OF this] assms(3) show ?thesis
    by (auto simp: shape_account_def default_balances_def split: option.splits)
qed

theorem fallback_accounts_carry_balances_witness:
  "accountsBalanceGet demo_plaid (access_token rowB) = Inl (UpstreamError ''balance'') \<and>
   accountsGet demo_plaid (access_token rowB) = Inr (Some [acct2]) \<and>
   a_balances acct2 = None \<and>
   fetch_transactions (transactionsGet demo_plaid (access_token rowB)) = Some [tx1, tx2] \<and>
   (\<exists>s. fetchItemSnapshot demo_plaid rowB = Some s \<and> map ao_balances (snap_accounts s) = [[]])"
proof -
  have b: "accountsBalanceGet demo_plaid (access_token rowB) = Inl (UpstreamError ''balance'')"
    by (simp add: demo_plaid_def rowB_def)
  have g: "accountsGet demo_plaid (access_token rowB) = Inr (Some [acct2])"
    by (simp add: demo_plaid_def rowB_def)
  note t = demo_fetch[of "access_token rowB"]
  show ?thesis
    using b g t fallback_accounts_carry_balances[OF b g t]
    by (simp add: or_nil_def acct2_def)
qed

section \<open>Reshaping of transactions\<close>

lemma acctMap_snoc: "acctMap (xs @ [x]) = (acctMap xs)(a_account_id x \<mapsto> x)"
  by (simp add: acctMap_def)

lemma acctMap_last:
  "acctMap accounts k =
     (if filter (\<lambda>a. a_account_id a = k) accounts = [] then None
      else Some (last (filter (\<lambda>a. a_account_id a = k) accounts)))"
proof (induction accounts rule: rev_induct)
  case Nil
  show ?case by (simp add: acctMap_def)
next
  case (snoc x xs)
  show ?case by (simp add: acctMap_snoc snoc.IH)
qed

text \<open>
  Claim C8, as amended. For a transaction whose account identifier is that of an account
  in the fetched list, let \<open>a\<close> be the last such account. The nickname of the reshaped
  transaction is the name of \<open>a\<close>, or when that is missing or empty its official name,
  or else the empty string. When \<open>a\<close> has no name this is the nickname of the reshaped
  record of \<open>a\<close>. The name of the reshaped transaction falls back through name, merchant
  name and payee to the empty string.
\<close>

theorem transaction_nickname_lookup:
  assumes "filter (\<lambda>a. a_account_id a = t_account_id t) accounts \<noteq> []"
  shows "let a = last (filter (\<lambda>a. a_account_id a = t_account_id t) accounts);
             out = shape_transaction inst (acctMap accounts) t
         in a \<in> set accounts \<and> a_account_id a = t_account_id t
          \<and> to_nickname out = or_else (a_name a) (or_else (a_official_name a) [])
          \<and> (or_else (a_name a) [] = [] \<longrightarrow>
                to_nickname out = ao_nickname (shape_account inst liab a))
          \<and> to_name out =
                or_else (t_name t) (or_else (t_merchant_name t) (or_else (t_payee t) []))"
proof -
  let ?f = "filter (\<lambda>a. a_account_id a = t_account_id t) accounts"
  have "last ?f \<in> set ?f" using assms by (rule last_in_set)
  then have m: "last ?f \<in> set accounts" "a_account_id (last ?f) = t_account_id t"
    by simp_all
  have l: "acctMap accounts (t_account_id t) = Some (last ?f)"
    using assms by (simp add: acctMap_last)
  have n: "or_else (a_name (last ?f)) [] = [] \<Longrightarrow>
      or_else (a_name (last ?f)) (or_else (a_official_name (last ?f)) [])
        = or_else (a_official_name (last ?f)) []"
    by (auto simp: or_else_def split: option.splits if_splits)
  show ?thesis
    using m l n by (simp add: Let_def shape_transaction_def shape_account_def)
qed

theorem transaction_nickname_lookup_witness:
  "filter (\<lambda>a. a_account_id a = t_account_id tx1) [acct2, acct1] \<noteq> [] \<and>
   to_nickname (shape_transaction ''Bank A'' (acctMap [acct2, acct1]) tx1) = ''Checking'' \<and>
   to_name (shape_transaction ''Bank A'' (acctMap [acct2, acct1]) tx1) = ''Grocer''"
proof -
  have f: "filter (\<lambda>a. a_account_id a = t_account_id tx1) [acct2, acct1] \<noteq> []"
    by (simp add: acct1_def acct2_def tx1_def)
  show ?thesis
    using f transaction_nickname_lookup[OF f, of "''Bank A''" empty_object]
    by (simp add: Let_def acct1_def acct2_def tx1_def or_else_def)
qed

text \<open>
  Claim C8 as written fails. The reshaped account takes its nickname from the official
  name alone, the reshaped transaction from the name first: for the account \<open>acc-1\<close>,
  named \<open>Checking\<close> with the official name \<open>Gold Checking\<close>, and its two
  transactions, the snapshot holds the nickname \<open>Gold Checking\<close> on the account and
  \<open>Checking\<close> on both transactions.
\<close>

theorem transaction_nickname_counterexample:
  "map_option
     (\<lambda>s. (map ao_nickname (snap_accounts s), map to_nickname (snap_transactions s)))
     (fetchItemSnapshot demo_plaid rowA)
   = Some ([''Gold Checking''], [''Checking'', ''Checking''])
   \<and> map a_account_id [acct1] = [''acc-1'']
   \<and> map t_account_id [tx1, tx2] = [''acc-1'', ''acc-1'']"
proof -
  have a: "accounts_step demo_plaid (access_token rowA) = Some [acct1]"
    by (simp add: accounts_step_def demo_plaid_def rowA_def)
  have m: "acctMap [acct1] ''acc-1'' = Some acct1"
    by (simp add: acctMap_def acct1_def)
  show ?thesis
    using a demo_fetch[of "access_token rowA"] m
    by (simp add: fetchItemSnapshot_def Let_def shape_account_def shape_transaction_def
        or_else_def acct1_def tx1_def tx2_def)
qed

section \<open>Cursor sync\<close>

lemma sync_loop_throws_from:
  assumes "more_before get k" and "get k = Inl e" and "i \<le> k"
  shows "sync_loop get i c a m r = Some (Inl e)"
  using assms(3)
proof (induction "k - i" arbitrary: i c a m r)
  case 0
  then have "i = k" by simp
  then show ?case using assms(2) by (subst sync_loop.simps) simp
next
  case (Suc d)
  then have "i < k" by simp
  then obtain p where p: "get i = Inr p" "has_more p"
    using assms(1) by (auto simp: more_before_def)
  have "sync_loop get i c a m r =
      sync_loop get (Suc i) (Some (next_cursor p)) (a @ added p) (m @ modified p) (r @ removed p)"
    using p by (subst sync_loop.simps) (simp add: Let_def)
  moreover have "d = k - Suc i" "Suc i \<le> k" using Suc.hyps(2) \<open>i < k\<close> by simp_all
  ultimately show ?case using Suc.hyps(1) by simp
qed

text \<open>
  Claim C3. For a stored item, when a call inside the sync loop throws (the answers
  before it each announced more, so the loop reaches the call), the handler answers 500
  \<^verbatim>\<open>sync_failed\<close> and both tables are as they were before the request: no cursor has
  been written, the stored cursor of the item is the one from before.
\<close>

theorem sync_failure_keeps_cursor:
  assumes "i \<noteq> []" and "getOneItem sdb i = Some row"
    and "more_before (transactionsSync up (access_token row)) k"
    and "transactionsSync up (access_token row) k = Inl e"
  shows "sync up sdb (Some i) =
           Some (\<lparr>status = 500, body = ErrorBody ''sync_failed''\<rparr>, sdb)"
  using assms(1,2) sync_loop_throws_from[OF assms(3,4), of 0]
  by (simp add: sync_def)

theorem sync_failure_keeps_cursor_witness:
  "''item-A'' \<noteq> [] \<and> getOneItem demo_store ''item-A'' = Some rowA \<and>
   more_before (transactionsSync demo_plaid (access_token rowA)) 1 \<and>
   transactionsSync demo_plaid (access_token rowA) 1 = Inl (UpstreamError ''sync'') \<and>
   sync demo_plaid demo_store (Some ''item-A'') =
     Some (\<lparr>status = 500, body = ErrorBody ''sync_failed''\<rparr>, demo_store)"
proof -
  have 1: "''item-A'' \<noteq> []" by simp
  have 2: "getOneItem demo_store ''item-A'' = Some rowA"
    by (simp add: getOneItem_def demo_store_def rowA_def)
  have 3: "more_before (transactionsSync demo_plaid (access_token rowA)) 1"
    by (simp add: more_before_def demo_plaid_def rowA_def)
  have 4: "transactionsSync demo_plaid (access_token rowA) 1 = Inl (UpstreamError ''sync'')"
    by (simp add: demo_plaid_def rowA_def)
  show ?thesis
    by (intro conjI) (rule 1, rule 2, rule 3, rule 4, rule sync_failure_keeps_cursor[OF 1 2 3 4])
qed

text \<open>
  Claim C2 does not hold of the code. With the three items A, B and C stored, the sync of
  A throws at its second call. The handler answers 500 \<^verbatim>\<open>sync_all_failed\<close> and the
  tables are untouched: B, whose sync answers at once and which the single-item route
  syncs with cursor \<open>d1\<close>, has not been synced and has no cursor.
\<close>

theorem sync_all_aborts_at_first_failure:
  "sync_all demo_plaid demo_store =
     Some (\<lparr>status = 500, body = ErrorBody ''sync_all_failed''\<rparr>, demo_store)
   \<and> getAccessTokens demo_store = [rowA, rowB, rowC]
   \<and> cursors demo_store ''item-B'' = None
   \<and> transactionsSync demo_plaid (access_token rowB) 0 =
       Inr \<lparr>added = [tx2], modified = [], removed = [], next_cursor = ''d1'', has_more = False\<rparr>
   \<and> sync demo_plaid demo_store (Some ''item-B'') =
       Some (\<lparr>status = 200, body = SyncOk ''item-B'' 1 0 0 [tx2]\<rparr>,
             upsertCursor demo_store ''item-B'' (Some ''d1''))"
proof -
  have a: "sync_count_loop (transactionsSync demo_plaid ''tok-A'') 0 c 0 0 0
            = Some (Inl (UpstreamError ''sync''))" for c
    by (simp add: sync_count_loop.simps demo_plaid_def)
  have 1: "sync_all demo_plaid demo_store =
     Some (\<lparr>status = 500, body = ErrorBody ''sync_all_failed''\<rparr>, demo_store)"
    by (simp add: sync_all_def getAccessTokens_def demo_store_def rowA_def a)
  have b: "sync_loop (transactionsSync demo_plaid ''tok-B'') 0 c [] [] []
            = Some (Inr (Some ''d1'', [tx2], [], []))" for c
    by (simp add: sync_loop.simps demo_plaid_def)
  have 2: "sync demo_plaid demo_store (Some ''item-B'') =
       Some (\<lparr>status = 200, body = SyncOk ''item-B'' 1 0 0 [tx2]\<rparr>,
             upsertCursor demo_store ''item-B'' (Some ''d1''))"
    by (simp add: sync_def getOneItem_def demo_store_def rowA_def rowB_def rowC_def b)
  show ?thesis
    using 1 2 by (simp add: getAccessTokens_def demo_store_def demo_plaid_def rowB_def)
qed

section \<open>Dashboard refresh\<close>

text \<open>
  Claim C7. A refresh request whose header differs from the configured secret (a missing
  header against a configured secret, and any header against no configured secret,
  included) is answered with 401; the dashboard file keeps its contents, and neither a
  forced refresh nor a snapshot has been requested.
\<close>

theorem refresh_dashboard_unauthorized:
  assumes "header \<noteq> secret"
  shows "refresh_dashboard up secret now sdb file header =
           Some (\<lparr>status = 401, body = ErrorBody ''unauthorized''\<rparr>, file, [])"
  using assms by (auto simp: refresh_dashboard_def split: option.splits)

theorem refresh_dashboard_unauthorized_witness:
  "Some ''wrong'' \<noteq> Some ''s3cret'' \<and>
   refresh_dashboard demo_plaid (Some ''s3cret'') ''2024-01-03'' demo_store None (Some ''wrong'') =
     Some (\<lparr>status = 401, body = ErrorBody ''unauthorized''\<rparr>, None, [])"
proof -
  have 1: "Some ''wrong'' \<noteq> Some ''s3cret''" by simp
  show ?thesis by (intro conjI) (rule 1, rule refresh_dashboard_unauthorized[OF 1])
qed

section \<open>One row per item identifier\<close>

lemma items_upsertCursor: "items (upsertCursor d i c) = items d"
  by (simp add: upsertCursor_def)

lemma sync_items: "sync up d i = Some (r, d') \<Longrightarrow> items d' = items d"
  by (auto simp: sync_def items_upsertCursor split: option.splits if_splits sum.splits)

lemma sync_all_items_items:
  "sync_all_items up rows d summary = Some (r, d') \<Longrightarrow> items d' = items d"
proof (induction rows arbitrary: d summary)
  case Nil
  then show ?case by simp
next
  case (Cons x xs)
  then show ?case
    by (auto simp: items_upsertCursor split: option.splits sum.splits dest!: Cons.IH)
qed

lemma sync_all_keeps_items: "sync_all up d = Some (r, d') \<Longrightarrow> items d' = items d"
  by (auto simp: sync_all_def split: option.splits sum.splits prod.splits
      dest: sync_all_items_items)

lemma insertItem_items:
  "items (insertItem d row) =
     (if item_id row \<in> set (map item_id (items d)) then items d else items d @ [row])"
  by (simp add: insertItem_def)

lemma exchange_items:
  "\<exists>new. items (snd (exchange_public_token up d pt inst)) = items d @ new
     \<and> (distinct (map item_id (items d)) \<longrightarrow>
          distinct (map item_id (items (snd (exchange_public_token up d pt inst)))))"
  by (auto simp: exchange_public_token_def insertItem_items split: option.splits sum.splits)

text \<open>
  Claim C9. Every request that is answered keeps the item identifiers of the
  \<^verbatim>\<open>items\<close> table distinct and keeps the rows that were there, as they were. A
  request other than an exchange leaves the table as it is. An exchange that yields an
  item identifier already in the table leaves both tables as they are: the insert is
  dropped.
\<close>

theorem items_unique_invariant:
  assumes "distinct (map item_id (items (db sv)))" and "handle up ev sv req = Some sv'"
  shows "distinct (map item_id (items (db sv')))
    \<and> (\<exists>new. items (db sv') = items (db sv) @ new)
    \<and> ((\<forall>pt inst. req \<noteq> ExchangePublicToken pt inst) \<longrightarrow> items (db sv') = items (db sv))
    \<and> (\<forall>pt inst tok i.
          req = ExchangePublicToken (Some pt) inst \<and> pt \<noteq> []
          \<and> itemPublicTokenExchange up pt = Inr (tok, i)
          \<and> i \<in> set (map item_id (items (db sv)))
          \<longrightarrow> db sv' = db sv)"
proof (cases req)
  case (ExchangePublicToken pt inst)
  then have sv': "db sv' = snd (exchange_public_token up (db sv) pt inst)"
    using assms(2) by auto
  have "\<And>p tok i. pt = Some p \<Longrightarrow> p \<noteq> [] \<Longrightarrow> itemPublicTokenExchange up p = Inr (tok, i)
      \<Longrightarrow> i \<in> set (map item_id (items (db sv))) \<Longrightarrow> db sv' = db sv"
    by (simp add: sv' exchange_public_token_def insertItem_def)
  then show ?thesis
    using exchange_items[of up "db sv" pt inst] assms(1) ExchangePublicToken sv' by auto
next
  case (TransactionsSync i)
  then have "items (db sv') = items (db sv)"
    using assms(2) by (auto dest: sync_items)
  then show ?thesis using assms(1) TransactionsSync by simp
next
  case TransactionsSyncAll
  then have "items (db sv') = items (db sv)"
    using assms(2) by (auto dest: sync_all_keeps_items)
  then show ?thesis using assms(1) TransactionsSyncAll by simp
next
  case (RefreshDashboard h)
  then have "db sv' = db sv" using assms(2) by auto
  then show ?thesis using assms(1) RefreshDashboard by simp
qed (use assms in auto)

theorem items_unique_invariant_witness:
  "distinct (map item_id (items (db \<lparr>db = demo_store, dash_json = None\<rparr>))) \<and>
   handle demo_plaid \<lparr>refresh_token = None, clock = ''2024-01-03''\<rparr>
     \<lparr>db = demo_store, dash_json = None\<rparr> (ExchangePublicToken (Some ''public-1'') None)
     = Some \<lparr>db = demo_store, dash_json = None\<rparr> \<and>
   itemPublicTokenExchange demo_plaid ''public-1'' = Inr (''tok-new'', ''item-A'') \<and>
   (\<exists>new. items (db \<lparr>db = demo_store, dash_json = None\<rparr>)
            = items (db \<lparr>db = demo_store, dash_json = None\<rparr>) @ new)"
proof -
  let ?sv = "\<lparr>db = demo_store, dash_json = None\<rparr>"
  have 1: "distinct (map item_id (items (db ?sv)))"
    by (simp add: demo_store_def rowA_def rowB_def rowC_def)
  have x: "itemPublicTokenExchange demo_plaid ''public-1'' = Inr (''tok-new'', ''item-A'')"
    by (simp add: demo_plaid_def)
  have 2: "handle demo_plaid \<lparr>refresh_token = None, clock = ''2024-01-03''\<rparr> ?sv
      (ExchangePublicToken (Some ''public-1'') None) = Some ?sv"
    by (simp add: exchange_public_token_def insertItem_def x)
       (simp add: demo_store_def rowA_def)
  have 3: "\<exists>new. items (db ?sv) = items (db ?sv) @ new"
    using items_unique_invariant[OF 1 2] by blast
  show ?thesis by (intro conjI) (rule 1, rule 2, rule x, rule 3)
qed

section \<open>The balances route\<close>

text \<open>
  Claim C10. The answer of the balances route lists, for every stored item, the result of
  the fallback: the accounts of the call without balances, each with \<^verbatim>\<open>balances\<close>
  defaulted to the empty object, or an error entry when that call throws. The balances
  call of the API has no part in it: the answer is the same whatever that call would
  give.
\<close>

theorem balances_is_fallback:
  "balances up sdb =
     \<lparr>status = 200, body = BalancesOk (map (balances_fallback up) (getAccessTokens sdb))\<rparr>
   \<and> (\<forall>r. balances_item_of up r =
        (case accountsGet up (access_token r) of
           Inr a \<Rightarrow> ItemAccounts (item_id r)
                     (map (\<lambda>x. x\<lparr>a_balances := Some (case a_balances x of None \<Rightarrow> []
                                                       | Some b \<Rightarrow> b)\<rparr>) (or_nil a))
         | Inl err \<Rightarrow> ItemError (item_id r) err))
   \<and> balances (up\<lparr>accountsBalanceGet := f\<rparr>) sdb = balances up sdb"
proof -
  have 1: "balances_item_of up = balances_fallback up" for up
    by (rule ext) (simp add: balances_item_of_def balances_primary_def)
  have 2: "balances_fallback (up\<lparr>accountsBalanceGet := f\<rparr>) = balances_fallback up"
    by (rule ext) (simp add: balances_fallback_def)
  have 3: "default_balances = (\<lambda>x. x\<lparr>a_balances := Some (case a_balances x of None \<Rightarrow> []
                                                       | Some b \<Rightarrow> b)\<rparr>)"
    by (rule ext) (simp add: default_balances_def)
  show ?thesis
    by (simp add: balances_def 1 2) (simp add: balances_fallback_def 3 split: sum.splits)
qed

theorem balances_is_fallback_witness:
  "balances demo_plaid demo_store =
     \<lparr>status = 200,
      body = BalancesOk
        [ItemAccounts ''item-A'' [acct2\<lparr>a_balances := Some []\<rparr>],
         ItemAccounts ''item-B'' [acct2\<lparr>a_balances := Some []\<rparr>],
         ItemError ''item-C'' (UpstreamError ''accounts'')]\<rparr>"
  using balances_is_fallback[of demo_plaid demo_store "accountsBalanceGet demo_plaid"]
  by (simp add: balances_fallback_def getAccessTokens_def demo_store_def demo_plaid_def
      rowA_def rowB_def rowC_def or_nil_def default_balances_def acct2_def)

end
